theory Spec2Isabelle
  imports Main
begin

section \<open>JavaScript string primitives used by Plugin.js\<close>

text \<open>
  Strings are character lists. Indices and lengths that the source lets go negative
  are integers; \<open>String.prototype.slice\<close> counts a negative bound from the end and
  clamps both bounds to the string.
\<close>

definition slice_bound :: "nat \<Rightarrow> int \<Rightarrow> nat" where
  "slice_bound n k = (if k < 0 then nat (max (int n + k) 0) else min (nat k) n)"

definition slice :: "string \<Rightarrow> int \<Rightarrow> int \<Rightarrow> string" where
  "slice s a b =
     (let from = slice_bound (length s) a; to = slice_bound (length s) b
      in take (to - from) (drop from s))"

definition slice_from :: "string \<Rightarrow> int \<Rightarrow> string" where
  "slice_from s a = drop (slice_bound (length s) a) s"

definition startsWith :: "string \<Rightarrow> string \<Rightarrow> bool" where
  "startsWith s p = (take (length p) s = p)"

definition str_includes :: "string \<Rightarrow> char \<Rightarrow> bool" where
  "str_includes s c = (c \<in> set s)"

fun lastIndexOf_from :: "string \<Rightarrow> char \<Rightarrow> nat \<Rightarrow> int" where
  "lastIndexOf_from s c 0 = -1"
| "lastIndexOf_from s c (Suc i) = (if s ! i = c then int i else lastIndexOf_from s c i)"

definition lastIndexOf :: "string \<Rightarrow> char \<Rightarrow> int" where
  "lastIndexOf s c = lastIndexOf_from s c (length s)"

text \<open>\<open>specifier.replace(/\\/g, "/")\<close>: every backslash becomes a forward slash.\<close>

definition backslash :: char where
  "backslash = CHR 0x5C"

definition replace_backslashes :: "string \<Rightarrow> string" where
  "replace_backslashes s = map (\<lambda>c. if c = backslash then CHR ''/'' else c) s"

section \<open>The POSIX implementation of node:path\<close>

text \<open>
  Plugin.js calls \<open>path.relative\<close>, \<open>path.dirname\<close>, \<open>path.extname\<close>,
  \<open>path.basename\<close>, \<open>path.resolve\<close> and \<open>path.posix.relative\<close> of Node's
  \<open>node:path\<close>. The functions below follow the POSIX half of Node's \<open>lib/path.js\<close>
  loop by loop; the sentinel \<open>-1\<close> of its index variables is kept, so those are integers.
\<close>

record ns_state =
  ns_res :: string
  ns_lastSegmentLength :: int
  ns_lastSlash :: int
  ns_dots :: int
  ns_code :: char

definition ns_body :: "string \<Rightarrow> bool \<Rightarrow> nat \<Rightarrow> ns_state \<Rightarrow> ns_state" where
  "ns_body path allowAboveRoot i s =
     (let res = ns_res s in
      if ns_code s = CHR ''/'' then
        (if ns_lastSlash s = int i - 1 \<or> ns_dots s = 1 then
           s\<lparr>ns_lastSlash := int i, ns_dots := 0\<rparr>
         else if ns_dots s = 2 then
           (if (length res < 2 \<or> ns_lastSegmentLength s \<noteq> 2
                 \<or> res ! (length res - 1) \<noteq> CHR ''.''
                 \<or> res ! (length res - 2) \<noteq> CHR ''.'') \<and> length res > 2 then
              (let lastSlashIndex = lastIndexOf res CHR ''/'' in
               if lastSlashIndex = -1 then
                 s\<lparr>ns_res := [], ns_lastSegmentLength := 0,
                   ns_lastSlash := int i, ns_dots := 0\<rparr>
               else
                 (let res' = slice res 0 lastSlashIndex in
                  s\<lparr>ns_res := res',
                    ns_lastSegmentLength := int (length res') - 1 - lastIndexOf res' CHR ''/'',
                    ns_lastSlash := int i, ns_dots := 0\<rparr>))
            else if (length res < 2 \<or> ns_lastSegmentLength s \<noteq> 2
                 \<or> res ! (length res - 1) \<noteq> CHR ''.''
                 \<or> res ! (length res - 2) \<noteq> CHR ''.'') \<and> length res \<noteq> 0 then
              s\<lparr>ns_res := [], ns_lastSegmentLength := 0,
                ns_lastSlash := int i, ns_dots := 0\<rparr>
            else if allowAboveRoot then
              s\<lparr>ns_res := (if length res > 0 then res @ ''/..'' else ''..''),
                ns_lastSegmentLength := 2, ns_lastSlash := int i, ns_dots := 0\<rparr>
            else
              s\<lparr>ns_lastSlash := int i, ns_dots := 0\<rparr>)
         else
           s\<lparr>ns_res := (if length res > 0
                          then res @ ''/'' @ slice path (ns_lastSlash s + 1) (int i)
                          else slice path (ns_lastSlash s + 1) (int i)),
             ns_lastSegmentLength := int i - ns_lastSlash s - 1,
             ns_lastSlash := int i, ns_dots := 0\<rparr>)
      else if ns_code s = CHR ''.'' \<and> ns_dots s \<noteq> -1 then
        s\<lparr>ns_dots := ns_dots s + 1\<rparr>
      else
        s\<lparr>ns_dots := -1\<rparr>)"

function normalizeString_loop :: "string \<Rightarrow> bool \<Rightarrow> nat \<Rightarrow> ns_state \<Rightarrow> string" where
  "normalizeString_loop path allowAboveRoot i s =
     (if i > length path then ns_res s
      else if i = length path \<and> ns_code s = CHR ''/'' then ns_res s
      else
        normalizeString_loop path allowAboveRoot (Suc i)
          (ns_body path allowAboveRoot i
             (s\<lparr>ns_code := (if i < length path then path ! i else CHR ''/'')\<rparr>)))"
  by pat_completeness auto
termination
  by (relation "measure (\<lambda>(path, a, i, s). Suc (length path) - i)") auto

definition normalizeString :: "string \<Rightarrow> bool \<Rightarrow> string" where
  "normalizeString path allowAboveRoot =
     normalizeString_loop path allowAboveRoot 0
       \<lparr>ns_res = [], ns_lastSegmentLength = 0, ns_lastSlash = -1, ns_dots = 0,
        ns_code = CHR 0x00\<rparr>"

text \<open>
  \<open>posix.resolve(...args)\<close> walks its arguments from the right, then the process's
  working directory, until the path built so far is absolute; empty arguments are
  skipped.
\<close>

fun resolve_args :: "string list \<Rightarrow> string \<times> bool \<Rightarrow> string \<times> bool" where
  "resolve_args [] acc = acc"
| "resolve_args (p # ps) (resolvedPath, resolvedAbsolute) =
     (if resolvedAbsolute then (resolvedPath, resolvedAbsolute)
      else if length p = 0 then resolve_args ps (resolvedPath, resolvedAbsolute)
      else resolve_args ps (p @ ''/'' @ resolvedPath, hd p = CHR ''/''))"

definition posix_resolve :: "string \<Rightarrow> string list \<Rightarrow> string" where
  "posix_resolve cwd args =
     (let (resolvedPath, resolvedAbsolute) = resolve_args (rev args @ [cwd]) ([], False);
          normalized = normalizeString resolvedPath (\<not> resolvedAbsolute)
      in if resolvedAbsolute then ''/'' @ normalized
         else if length normalized > 0 then normalized else ''.'')"

text \<open>
  \<open>posix.relative(from, to)\<close>: both paths are resolved, the longest common prefix
  that ends at a separator is found, one \<open>..\<close> is emitted for every remaining
  component of \<open>from\<close>, and the rest of \<open>to\<close> is appended.
\<close>

function relative_common :: "string \<Rightarrow> string \<Rightarrow> nat \<Rightarrow> nat \<Rightarrow> int \<Rightarrow> nat \<times> int" where
  "relative_common from to len i lastCommonSep =
     (if i < len then
        (let fromCode = from ! (1 + i) in
         if fromCode \<noteq> to ! (1 + i) then (i, lastCommonSep)
         else if fromCode = CHR ''/'' then relative_common from to len (Suc i) (int i)
         else relative_common from to len (Suc i) lastCommonSep)
      else (i, lastCommonSep))"
  by pat_completeness auto
termination
  by (relation "measure (\<lambda>(from, to, len, i, l). len - i)") auto

function relative_out :: "string \<Rightarrow> nat \<Rightarrow> string \<Rightarrow> string" where
  "relative_out from i out =
     (if i \<le> length from then
        relative_out from (Suc i)
          (if i = length from \<or> from ! i = CHR ''/''
           then out @ (if length out = 0 then ''..'' else ''/..'')
           else out)
      else out)"
  by pat_completeness auto
termination
  by (relation "measure (\<lambda>(from, i, out). Suc (length from) - i)") auto

definition posix_relative :: "string \<Rightarrow> string \<Rightarrow> string \<Rightarrow> string" where
  "posix_relative cwd from0 to0 =
     (if from0 = to0 then []
      else
        (let from = posix_resolve cwd [from0]; to = posix_resolve cwd [to0] in
         if from = to then []
         else
           (let fromLen = length from - 1; toLen = length to - 1;
                len = (if fromLen < toLen then fromLen else toLen);
                (i, sep) = relative_common from to len 0 (-1)
            in
              if i = len \<and> toLen > len \<and> to ! (1 + i) = CHR ''/'' then
                slice_from to (int (1 + i + 1))
              else if i = len \<and> toLen > len \<and> i = 0 then
                slice_from to (int (1 + i))
              else
                (let lastCommonSep =
                       (if i = len \<and> \<not> toLen > len \<and> fromLen > len then
                          (if from ! (1 + i) = CHR ''/'' then int i
                           else if i = 0 then 0 else sep)
                        else sep)
                 in relative_out from (nat (1 + lastCommonSep + 1)) []
                      @ slice_from to (1 + lastCommonSep)))))"

text \<open>\<open>posix.dirname(path)\<close>: the scan runs from the last index down to index 1.\<close>

fun dirname_loop :: "string \<Rightarrow> nat \<Rightarrow> bool \<Rightarrow> int" where
  "dirname_loop path 0 matchedSlash = -1"
| "dirname_loop path (Suc i) matchedSlash =
     (if i < 1 then -1
      else if path ! i = CHR ''/'' then
        (if \<not> matchedSlash then int i else dirname_loop path i matchedSlash)
      else dirname_loop path i False)"

definition posix_dirname :: "string \<Rightarrow> string" where
  "posix_dirname path =
     (if length path = 0 then ''.''
      else
        (let hasRoot = (path ! 0 = CHR ''/'');
             end = dirname_loop path (length path) True
         in if end = -1 then (if hasRoot then ''/'' else ''.'')
            else if hasRoot \<and> end = 1 then ''//''
            else slice path 0 end))"

text \<open>\<open>posix.extname(path)\<close>: the scan runs from the last index down to index 0.\<close>

record ext_state =
  ext_startDot :: int
  ext_startPart :: int
  ext_end :: int
  ext_matchedSlash :: bool
  ext_preDotState :: int

fun extname_loop :: "string \<Rightarrow> nat \<Rightarrow> ext_state \<Rightarrow> ext_state" where
  "extname_loop path 0 s = s"
| "extname_loop path (Suc i) s =
     (if path ! i = CHR ''/'' then
        (if \<not> ext_matchedSlash s then s\<lparr>ext_startPart := int i + 1\<rparr>
         else extname_loop path i s)
      else
        (let s1 = (if ext_end s = -1
                   then s\<lparr>ext_matchedSlash := False, ext_end := int i + 1\<rparr> else s);
             s2 = (if path ! i = CHR ''.'' then
                     (if ext_startDot s1 = -1 then s1\<lparr>ext_startDot := int i\<rparr>
                      else if ext_preDotState s1 \<noteq> 1 then s1\<lparr>ext_preDotState := 1\<rparr>
                      else s1)
                   else if ext_startDot s1 \<noteq> -1 then s1\<lparr>ext_preDotState := -1\<rparr>
                   else s1)
         in extname_loop path i s2))"

definition posix_extname :: "string \<Rightarrow> string" where
  "posix_extname path =
     (let s = extname_loop path (length path)
                \<lparr>ext_startDot = -1, ext_startPart = 0, ext_end = -1,
                 ext_matchedSlash = True, ext_preDotState = 0\<rparr>
      in if ext_startDot s = -1 \<or> ext_end s = -1 \<or> ext_preDotState s = 0
            \<or> (ext_preDotState s = 1 \<and> ext_startDot s = ext_end s - 1
                \<and> ext_startDot s = ext_startPart s + 1)
         then []
         else slice path (ext_startDot s) (ext_end s))"

text \<open>
  \<open>posix.basename(path, suffix)\<close>. Plugin.js always passes a suffix (the result of
  \<open>extname\<close>, possibly empty), so \<open>suffix !== undefined\<close> holds at every call.
\<close>

record base_state =
  base_start :: int
  base_end :: int
  base_matchedSlash :: bool
  base_extIdx :: int
  base_firstNonSlashEnd :: int

fun basename_suffix_loop :: "string \<Rightarrow> string \<Rightarrow> nat \<Rightarrow> base_state \<Rightarrow> base_state" where
  "basename_suffix_loop path suffix 0 s = s"
| "basename_suffix_loop path suffix (Suc i) s =
     (if path ! i = CHR ''/'' then
        (if \<not> base_matchedSlash s then s\<lparr>base_start := int i + 1\<rparr>
         else basename_suffix_loop path suffix i s)
      else
        (let s1 = (if base_firstNonSlashEnd s = -1
                   then s\<lparr>base_matchedSlash := False, base_firstNonSlashEnd := int i + 1\<rparr>
                   else s);
             s2 = (if base_extIdx s1 \<ge> 0 then
                     (if path ! i = suffix ! nat (base_extIdx s1) then
                        (if base_extIdx s1 - 1 = -1
                         then s1\<lparr>base_extIdx := base_extIdx s1 - 1, base_end := int i\<rparr>
                         else s1\<lparr>base_extIdx := base_extIdx s1 - 1\<rparr>)
                      else s1\<lparr>base_extIdx := -1, base_end := base_firstNonSlashEnd s1\<rparr>)
                   else s1)
         in basename_suffix_loop path suffix i s2))"

fun basename_plain_loop :: "string \<Rightarrow> nat \<Rightarrow> base_state \<Rightarrow> base_state" where
  "basename_plain_loop path 0 s = s"
| "basename_plain_loop path (Suc i) s =
     (if path ! i = CHR ''/'' then
        (if \<not> base_matchedSlash s then s\<lparr>base_start := int i + 1\<rparr>
         else basename_plain_loop path i s)
      else if base_end s = -1 then
        basename_plain_loop path i (s\<lparr>base_matchedSlash := False, base_end := int i + 1\<rparr>)
      else basename_plain_loop path i s)"

definition posix_basename :: "string \<Rightarrow> string \<Rightarrow> string" where
  "posix_basename path suffix =
     (let s0 = \<lparr>base_start = 0, base_end = -1, base_matchedSlash = True,
                base_extIdx = int (length suffix) - 1, base_firstNonSlashEnd = -1\<rparr>
      in
        if length suffix > 0 \<and> length suffix \<le> length path then
          (if suffix = path then []
           else
             (let s = basename_suffix_loop path suffix (length path) s0;
                  end = (if base_start s = base_end s then base_firstNonSlashEnd s
                         else if base_end s = -1 then int (length path)
                         else base_end s)
              in slice path (base_start s) end))
        else
          (let s = basename_plain_loop path (length path) s0
           in if base_end s = -1 then [] else slice path (base_start s) (base_end s)))"

text \<open>
  The \<open>path\<close> object Plugin.js imports. Its top-level functions are the platform's
  (POSIX or Windows), so they are fields here; \<open>path.posix.relative\<close> is the POSIX
  function on every platform and only needs the working directory Node resolves
  relative paths against.
\<close>

record node_path =
  posixCwd :: string
  path_relative :: "string \<Rightarrow> string \<Rightarrow> string"
  path_dirname :: "string \<Rightarrow> string"
  path_extname :: "string \<Rightarrow> string"
  path_basename :: "string \<Rightarrow> string \<Rightarrow> string"
  path_resolve :: "string \<Rightarrow> string \<Rightarrow> string"

definition path_posix_relative :: "node_path \<Rightarrow> string \<Rightarrow> string \<Rightarrow> string" where
  "path_posix_relative P from to = posix_relative (posixCwd P) from to"

text \<open>\<open>path\<close> on a POSIX platform whose working directory is \<open>cwd\<close>.\<close>

definition posix :: "string \<Rightarrow> node_path" where
  "posix cwd =
     \<lparr>posixCwd = cwd,
      path_relative = posix_relative cwd,
      path_dirname = posix_dirname,
      path_extname = posix_extname,
      path_basename = posix_basename,
      path_resolve = (\<lambda>a b. posix_resolve cwd [a, b])\<rparr>"

section \<open>The plugin's data\<close>

datatype error = TypeError | ResolverError

text \<open>An optional field is an \<open>option\<close>; \<open>None\<close> is \<open>undefined\<close>.\<close>

record PluginOptions =
  paths :: "string list option"
  ignoreNamedExport :: "bool option"
  nameTransform :: "string option"
  capitalizedFilesOnly :: "bool option"

record CompilerOptions =
  baseUrl :: "string option"
  importModuleSpecifierEnding :: "string option"

text \<open>
  A program maps a file name to the text of its source file, when it has one.
  \<open>projectService_host\<close> is the project's host when there is one, given as the outcome
  of \<open>ts.moduleSpecifiers.getModuleSpecifier(compilerOptions, importingSourceFile,
  selfPath, modulePath, host)\<close> with that host: a specifier, or the error it throws.
  \<open>readDirectory\<close> takes the directory, the extensions and the depth.
\<close>

type_synonym Program = "string \<rightharpoonup> string"

record Project =
  getCurrentDirectory :: string
  getCompilerOptions :: CompilerOptions
  getLanguageService_getProgram :: "Program option"
  projectService_host ::
    "(CompilerOptions \<Rightarrow> string \<Rightarrow> string \<Rightarrow> string \<Rightarrow> error + string) option"
  readDirectory :: "string \<Rightarrow> string list \<Rightarrow> nat option \<Rightarrow> string list"

record PluginCreateInfo =
  info_config_options :: PluginOptions
  info_project :: Project
  info_languageService_getProgram :: "Program option"

record EntryData =
  data_exportName :: "string option"
  data_fileName :: "string option"
  data_modulePath :: "string option"

record CompletionEntry =
  entry_name :: string
  entry_source :: "string option"
  entry_sortText :: string
  entry_data :: "EntryData option"

record TextSpan =
  span_start :: nat
  span_length :: nat

record TextChange =
  span :: TextSpan
  newText :: string

record FileTextChanges =
  changes_fileName :: string
  textChanges :: "TextChange list"

record CodeFixAction =
  fixName :: string
  description :: string
  changes :: "FileTextChanges list"
  commands :: "unit list"

record CompletionEntryDetails =
  details_name :: string
  kindModifiers :: string
  displayParts :: "unit list"
  codeActions :: "CodeFixAction list"

text \<open>JavaScript truthiness of an optional string and of an optional boolean.\<close>

fun truthy_string :: "string option \<Rightarrow> bool" where
  "truthy_string None = False"
| "truthy_string (Some s) = (s \<noteq> [])"

fun truthy_bool :: "bool option \<Rightarrow> bool" where
  "truthy_bool None = False"
| "truthy_bool (Some b) = b"

section \<open>Plugin.js\<close>

subsection \<open>getFileNameWithoutExt, getFilePathWithoutExt\<close>

definition getFileNameWithoutExt :: "node_path \<Rightarrow> string \<Rightarrow> string" where
  "getFileNameWithoutExt P filePath =
     (let ext = path_extname P filePath in path_basename P filePath ext)"

definition getFilePathWithoutExt :: "node_path \<Rightarrow> string \<Rightarrow> string" where
  "getFilePathWithoutExt P filePath =
     (let ext = path_extname P filePath
      in slice filePath 0 (int (length filePath) - int (length ext)))"

subsection \<open>getModuleSpceifier\<close>

text \<open>
  The part of \<open>getModuleSpceifier\<close> after the \<open>try\<close>: first the value of
  \<open>specifier\<close> when the \<open>if (compilerOptions.baseUrl)\<close> statement is left, then the
  extension handling.
\<close>

definition relativeSpecifier :: "node_path \<Rightarrow> string \<Rightarrow> string \<Rightarrow> CompilerOptions \<Rightarrow> string" where
  "relativeSpecifier P selfPath modulePath compilerOptions =
     (if truthy_string (baseUrl compilerOptions) then
        path_posix_relative P (the (baseUrl compilerOptions)) modulePath
      else
        (let selfDir = path_dirname P selfPath;
             relativePath = path_relative P selfDir modulePath;
             specifier = (if startsWith relativePath ''.'' then relativePath
                          else ''./'' @ relativePath)
         in replace_backslashes specifier))"

definition fallbackSpecifier :: "node_path \<Rightarrow> string \<Rightarrow> string \<Rightarrow> CompilerOptions \<Rightarrow> string" where
  "fallbackSpecifier P selfPath modulePath compilerOptions =
     (let specifier = getFilePathWithoutExt P
                        (relativeSpecifier P selfPath modulePath compilerOptions)
      in
        if importModuleSpecifierEnding compilerOptions = Some ''js'' then
          specifier @ path_extname P modulePath
        else if importModuleSpecifierEnding compilerOptions = Some ''minimal'' then
          specifier
        else
          specifier @ path_extname P modulePath)"

definition getModuleSpceifier :: "node_path \<Rightarrow> string \<Rightarrow> string \<Rightarrow> Project \<Rightarrow> string" where
  "getModuleSpceifier P selfPath modulePath project =
     (let compilerOptions = getCompilerOptions project;
          importingSourceFile =
            (case getLanguageService_getProgram project of
               None \<Rightarrow> None
             | Some program \<Rightarrow> program selfPath)
      in
        case (importingSourceFile, projectService_host project) of
          (Some sourceFile, Some host) \<Rightarrow>
            (case host compilerOptions sourceFile selfPath modulePath of
               Inr moduleSpecifier \<Rightarrow> moduleSpecifier
             | Inl e \<Rightarrow> fallbackSpecifier P selfPath modulePath compilerOptions)
        | _ \<Rightarrow> fallbackSpecifier P selfPath modulePath compilerOptions)"

subsection \<open>getModulePathsToImport\<close>

text \<open>
  \<open>[...new Set(xs)]\<close>: the elements of \<open>xs\<close> in the order of their first
  occurrence; \<open>Set.prototype.add\<close> leaves the set alone when the value is in it.
\<close>

definition Set_add :: "'a \<Rightarrow> 'a list \<Rightarrow> 'a list" where
  "Set_add x acc = (if x \<in> set acc then acc else acc @ [x])"

definition spread_new_Set :: "'a list \<Rightarrow> 'a list" where
  "spread_new_Set xs = fold Set_add xs []"

text \<open>\<open>/^[A-Z]/.test(basename)\<close>\<close>

fun test_A_Z :: "string \<Rightarrow> bool" where
  "test_A_Z [] = False"
| "test_A_Z (c # cs) = (65 \<le> (of_char c :: nat) \<and> (of_char c :: nat) \<le> 90)"

definition source_extensions :: "string list" where
  "source_extensions = [''.ts'', ''.tsx'', ''.js'', ''.jsx'']"

definition keep_module_path :: "node_path \<Rightarrow> PluginOptions \<Rightarrow> string \<Rightarrow> bool" where
  "keep_module_path P options filePath =
     (let basename = getFileNameWithoutExt P filePath in
      if str_includes basename CHR ''.'' then False
      else if truthy_bool (capitalizedFilesOnly options) then test_A_Z basename
      else True)"

definition scanned_module_paths :: "node_path \<Rightarrow> PluginOptions \<Rightarrow> Project \<Rightarrow> string list" where
  "scanned_module_paths P options project =
     (let currentDir = getCurrentDirectory project in
      case paths options of
        Some ps \<Rightarrow>
          if length ps > 0 then
            concat (map (\<lambda>dirPath.
                      readDirectory project (path_resolve P currentDir dirPath)
                        source_extensions None) ps)
          else readDirectory project currentDir source_extensions (Some 10)
      | None \<Rightarrow> readDirectory project currentDir source_extensions (Some 10))"

definition getModulePathsToImport :: "node_path \<Rightarrow> PluginOptions \<Rightarrow> Project \<Rightarrow> string list" where
  "getModulePathsToImport P options project =
     (let modulePaths = scanned_module_paths P options project;
          filteredPaths = filter (keep_module_path P options) modulePaths
      in spread_new_Set filteredPaths)"

subsection \<open>transformImportName, stringCase\<close>

text \<open>
  \<open>str.replace(/[^a-zA-Z0-9]/g, " ")\<close> leaves ASCII letters, digits and spaces only,
  so \<open>split(/\s+/)\<close> splits at runs of spaces, and \<open>toUpperCase\<close> and
  \<open>toLowerCase\<close> only meet ASCII letters and digits.
\<close>

definition is_upper :: "char \<Rightarrow> bool" where
  "is_upper c = (65 \<le> (of_char c :: nat) \<and> (of_char c :: nat) \<le> 90)"

definition is_lower :: "char \<Rightarrow> bool" where
  "is_lower c = (97 \<le> (of_char c :: nat) \<and> (of_char c :: nat) \<le> 122)"

definition is_digit :: "char \<Rightarrow> bool" where
  "is_digit c = (48 \<le> (of_char c :: nat) \<and> (of_char c :: nat) \<le> 57)"

definition replace_non_alnum :: "string \<Rightarrow> string" where
  "replace_non_alnum str =
     map (\<lambda>c. if is_lower c \<or> is_upper c \<or> is_digit c then c else CHR '' '') str"

function split_spaces :: "string \<Rightarrow> string list" where
  "split_spaces [] = [[]]"
| "split_spaces (c # cs) =
     (if c = CHR '' '' then [] # split_spaces (dropWhile (\<lambda>d. d = CHR '' '') cs)
      else (case split_spaces cs of
              w # ws \<Rightarrow> (c # w) # ws
            | [] \<Rightarrow> [[c]]))"
  by pat_completeness auto
termination
  by (relation "measure length") (auto simp: length_dropWhile_le less_Suc_eq_le)

definition toUpperCase :: "string \<Rightarrow> string" where
  "toUpperCase w = map (\<lambda>c. if is_lower c then char_of ((of_char c :: nat) - 32) else c) w"

definition toLowerCase :: "string \<Rightarrow> string" where
  "toLowerCase w = map (\<lambda>c. if is_upper c then char_of ((of_char c :: nat) + 32) else c) w"

definition case_word :: "bool \<Rightarrow> nat \<Rightarrow> string \<Rightarrow> string" where
  "case_word pascalCase index word =
     (if index = 0 \<and> \<not> pascalCase then toLowerCase word
      else toUpperCase (take 1 word) @ toLowerCase (slice_from word 1))"

definition stringCase :: "string \<Rightarrow> bool \<Rightarrow> string" where
  "stringCase str pascalCase =
     (let words = filter (\<lambda>w. w \<noteq> []) (split_spaces (replace_non_alnum str))
      in concat (map (\<lambda>(index, word). case_word pascalCase index word)
                   (enumerate 0 words)))"

definition transformImportName :: "string \<Rightarrow> PluginOptions \<Rightarrow> string" where
  "transformImportName name options =
     (if truthy_string (nameTransform options) then
        stringCase name (nameTransform options = Some ''PascalCase'')
      else name)"

subsection \<open>getCodeFixActionFromPath, getCompletionEntryDetails, getCodeFixActionByName\<close>

definition import_text :: "string \<Rightarrow> string \<Rightarrow> string" where
  "import_text name moduleSpecifier =
     ''import * as '' @ name @ '' from '' @ [CHR 0x22] @ moduleSpecifier
       @ [CHR 0x22] @ '';'' @ [CHR 0x0A]"

definition getCodeFixActionFromPath ::
    "node_path \<Rightarrow> string \<Rightarrow> string \<Rightarrow> string \<Rightarrow> Project \<Rightarrow> CodeFixAction" where
  "getCodeFixActionFromPath P name selfPath modulePath project =
     (let moduleSpecifier = getModuleSpceifier P selfPath modulePath project;
          text = import_text name moduleSpecifier
      in \<lparr>fixName = ''namespace-import'',
          description = text,
          changes =
            [\<lparr>changes_fileName = selfPath,
              textChanges =
                [\<lparr>span = \<lparr>span_start = 0, span_length = 0\<rparr>, newText = text\<rparr>]\<rparr>],
          commands = []\<rparr>)"

definition getCompletionEntryDetails ::
    "node_path \<Rightarrow> string \<Rightarrow> string \<Rightarrow> string \<Rightarrow> PluginCreateInfo \<Rightarrow> CompletionEntryDetails" where
  "getCompletionEntryDetails P name selfPath modulePath info =
     (let action = getCodeFixActionFromPath P name selfPath modulePath (info_project info)
      in \<lparr>details_name = name, kindModifiers = [], displayParts = [],
          codeActions = [action]\<rparr>)"

text \<open>
  The selected text: \<open>undefined\<close> when the program or the source file is missing,
  else the slice of the file's text. \<open>null\<close> is \<open>None\<close>.
\<close>

definition selected_name :: "string \<Rightarrow> int \<Rightarrow> int \<Rightarrow> PluginCreateInfo \<Rightarrow> string option" where
  "selected_name selfPath start end info =
     (case info_languageService_getProgram info of
        None \<Rightarrow> None
      | Some program \<Rightarrow>
          (case program selfPath of
             None \<Rightarrow> None
           | Some text \<Rightarrow> Some (slice text start end)))"

definition getCodeFixActionByName ::
    "node_path \<Rightarrow> string \<Rightarrow> int \<Rightarrow> int \<Rightarrow> PluginCreateInfo \<Rightarrow> CodeFixAction option" where
  "getCodeFixActionByName P selfPath start end info =
     (let name = selected_name selfPath start end info in
      if \<not> truthy_string name then None
      else
        (let modulePaths = getModulePathsToImport P (info_config_options info) (info_project info);
             modulePath = find (\<lambda>filePath. getFileNameWithoutExt P filePath = the name)
                            modulePaths
         in if truthy_string modulePath then
              Some (getCodeFixActionFromPath P (the name) selfPath (the modulePath)
                      (info_project info))
            else None))"

subsection \<open>filterNamedImportEntries\<close>

text \<open>
  \<open>options.paths.map\<close> throws a TypeError when \<open>options.paths\<close> is undefined.
  \<open>entry.data?.exportName && entry.data.fileName?.startsWith(dirPath)\<close> is truthy when
  the entry has data, the export name is a non-empty string, and the file name is
  there and starts with the directory.
\<close>

definition named_export_under :: "CompletionEntry \<Rightarrow> string \<Rightarrow> bool" where
  "named_export_under entry dirPath =
     (case entry_data entry of
        None \<Rightarrow> False
      | Some d \<Rightarrow>
          truthy_string (data_exportName d) \<and>
          (case data_fileName d of
             None \<Rightarrow> False
           | Some f \<Rightarrow> startsWith f dirPath))"

definition filterNamedImportEntries ::
    "node_path \<Rightarrow> CompletionEntry list \<Rightarrow> PluginCreateInfo \<Rightarrow> error + CompletionEntry list" where
  "filterNamedImportEntries P entries info =
     (let options = info_config_options info in
      if \<not> truthy_bool (ignoreNamedExport options) then Inr entries
      else
        (let currentDir = getCurrentDirectory (info_project info) in
         case paths options of
           None \<Rightarrow> Inl TypeError
         | Some ps \<Rightarrow>
             (let dirPaths = map (\<lambda>dirPath. path_resolve P currentDir dirPath) ps
              in Inr (filter (\<lambda>entry. \<not> list_ex (\<lambda>dirPath. named_export_under entry dirPath)
                                          dirPaths)
                        entries))))"

section \<open>A small project used in the examples\<close>

text \<open>
  The project root is \<open>/proj\<close>. The search roots \<open>src\<close> and \<open>src/b\<close> overlap:
  both report \<open>/proj/src/b/Bar.ts\<close>. The native resolver of this project always throws.
\<close>

definition example_program :: Program where
  "example_program = [''/proj/src/a/Foo.ts'' \<mapsto> ''Bar.run()'']"

definition example_project :: Project where
  "example_project =
     \<lparr>getCurrentDirectory = ''/proj'',
      getCompilerOptions = \<lparr>baseUrl = None, importModuleSpecifierEnding = None\<rparr>,
      getLanguageService_getProgram = Some example_program,
      projectService_host =
        Some (\<lambda>compilerOptions sourceFile selfPath modulePath. Inl ResolverError),
      readDirectory = (\<lambda>dir extensions depth.
        if dir = ''/proj/src'' then
          [''/proj/src/a/Foo.ts'', ''/proj/src/a/Foo.test.ts'',
           ''/proj/src/a/stateMachine.ts'', ''/proj/src/b/Bar.ts'']
        else if dir = ''/proj/src/b'' then [''/proj/src/b/Bar.ts'']
        else [])\<rparr>"

definition example_options :: PluginOptions where
  "example_options =
     \<lparr>paths = Some [''src'', ''src/b''], ignoreNamedExport = Some True,
      nameTransform = None, capitalizedFilesOnly = Some True\<rparr>"

definition example_info :: PluginCreateInfo where
  "example_info =
     \<lparr>info_config_options = example_options, info_project = example_project,
      info_languageService_getProgram = Some example_program\<rparr>"

text \<open>Two entries of the host: the first has no export name, the second has one.\<close>

definition entry_without_exportName :: CompletionEntry where
  "entry_without_exportName =
     \<lparr>entry_name = ''Bar'', entry_source = Some ''/proj/src/b/Bar.ts'', entry_sortText = ''11'',
      entry_data = Some \<lparr>data_exportName = None,
                         data_fileName = Some ''/proj/src/b/Bar.ts'',
                         data_modulePath = None\<rparr>\<rparr>"

definition entry_with_exportName :: CompletionEntry where
  "entry_with_exportName =
     \<lparr>entry_name = ''run'', entry_source = Some ''/proj/src/b/Bar.ts'', entry_sortText = ''11'',
      entry_data = Some \<lparr>data_exportName = Some ''run'',
                         data_fileName = Some ''/proj/src/b/Bar.ts'',
                         data_modulePath = None\<rparr>\<rparr>"

section \<open>Evaluation of the examples\<close>

lemma posix_resolve_absolute:
  "a \<noteq> [] \<Longrightarrow> hd a = CHR ''/'' \<Longrightarrow> posix_resolve cwd [a] = posix_resolve [] [a]"
  by (simp add: posix_resolve_def)

lemma posix_relative_absolute:
  "a \<noteq> [] \<Longrightarrow> hd a = CHR ''/'' \<Longrightarrow> b \<noteq> [] \<Longrightarrow> hd b = CHR ''/'' \<Longrightarrow>
   posix_relative cwd a b = posix_relative [] a b"
  by (simp add: posix_relative_def posix_resolve_absolute [of a cwd]
        posix_resolve_absolute [of b cwd])

lemma dirname_Foo: "posix_dirname ''/proj/src/a/Foo.ts'' = ''/proj/src/a''"
  by code_simp

lemma relative_a_Bar: "posix_relative [] ''/proj/src/a'' ''/proj/src/b/Bar.ts'' = ''../b/Bar.ts''"
  by code_simp

lemma relative_src_Bar: "posix_relative [] ''/proj/src'' ''/proj/src/b/Bar.ts'' = ''b/Bar.ts''"
  by code_simp

lemma relative_a_foo: "posix_relative [] ''/proj/src/a'' ''/proj/src/a/foo.ts'' = ''foo.ts''"
  by code_simp

lemma relative_src_b_backslash_Bar:
  "posix_relative [] ''/proj/src'' (''/proj/src/b'' @ [CHR 0x5C] @ ''Bar.ts'')
   = ''b'' @ [CHR 0x5C] @ ''Bar.ts''"
  by code_simp

lemma extname_examples:
  "posix_extname ''/proj/src/b/Bar.ts'' = ''.ts''"
  "posix_extname ''../b/Bar.ts'' = ''.ts''"
  "posix_extname ''b/Bar.ts'' = ''.ts''"
  "posix_extname ''./foo.ts'' = ''.ts''"
  "posix_extname ''/proj/src/a/foo.ts'' = ''.ts''"
  "posix_extname (''b'' @ [CHR 0x5C] @ ''Bar.ts'') = ''.ts''"
  "posix_extname (''/proj/src/b'' @ [CHR 0x5C] @ ''Bar.ts'') = ''.ts''"
  by code_simp+

lemma relativeSpecifier_Foo_Bar:
  "relativeSpecifier (posix cwd) ''/proj/src/a/Foo.ts'' ''/proj/src/b/Bar.ts''
     \<lparr>baseUrl = None, importModuleSpecifierEnding = ending\<rparr> = ''../b/Bar.ts''"
  by (simp add: relativeSpecifier_def posix_def dirname_Foo posix_relative_absolute
        relative_a_Bar startsWith_def replace_backslashes_def backslash_def)

lemma relativeSpecifier_Foo_foo:
  "relativeSpecifier (posix cwd) ''/proj/src/a/Foo.ts'' ''/proj/src/a/foo.ts''
     \<lparr>baseUrl = None, importModuleSpecifierEnding = ending\<rparr> = ''./foo.ts''"
  by (simp add: relativeSpecifier_def posix_def dirname_Foo posix_relative_absolute
        relative_a_foo startsWith_def replace_backslashes_def backslash_def)

lemma relativeSpecifier_baseUrl_Bar:
  "relativeSpecifier (posix cwd) selfPath ''/proj/src/b/Bar.ts''
     \<lparr>baseUrl = Some ''/proj/src'', importModuleSpecifierEnding = ending\<rparr> = ''b/Bar.ts''"
  by (simp add: relativeSpecifier_def path_posix_relative_def posix_def
        posix_relative_absolute relative_src_Bar)

lemma getFilePathWithoutExt_examples:
  "getFilePathWithoutExt (posix cwd) ''../b/Bar.ts'' = ''../b/Bar''"
  "getFilePathWithoutExt (posix cwd) ''./foo.ts'' = ''./foo''"
  "getFilePathWithoutExt (posix cwd) ''b/Bar.ts'' = ''b/Bar''"
  by (simp_all add: getFilePathWithoutExt_def posix_def extname_examples slice_def
        slice_bound_def)

lemma path_extname_examples:
  "path_extname (posix cwd) ''/proj/src/b/Bar.ts'' = ''.ts''"
  "path_extname (posix cwd) ''/proj/src/a/foo.ts'' = ''.ts''"
  by (simp_all add: posix_def extname_examples)

lemma fallbackSpecifier_Foo_Bar_eval:
  "fallbackSpecifier (posix cwd) ''/proj/src/a/Foo.ts'' ''/proj/src/b/Bar.ts''
     \<lparr>baseUrl = None, importModuleSpecifierEnding = ending\<rparr>
   = (if ending = Some ''minimal'' then ''../b/Bar'' else ''../b/Bar.ts'')"
  by (simp add: fallbackSpecifier_def Let_def relativeSpecifier_Foo_Bar
        getFilePathWithoutExt_examples path_extname_examples)

lemma fallbackSpecifier_Foo_foo_eval:
  "fallbackSpecifier (posix cwd) ''/proj/src/a/Foo.ts'' ''/proj/src/a/foo.ts''
     \<lparr>baseUrl = None, importModuleSpecifierEnding = Some ''minimal''\<rparr> = ''./foo''"
  by (simp add: fallbackSpecifier_def Let_def relativeSpecifier_Foo_foo
        getFilePathWithoutExt_examples)

lemma fallbackSpecifier_baseUrl_Bar_eval:
  "fallbackSpecifier (posix cwd) selfPath ''/proj/src/b/Bar.ts''
     \<lparr>baseUrl = Some ''/proj/src'', importModuleSpecifierEnding = Some ''minimal''\<rparr> = ''b/Bar''"
  by (simp add: fallbackSpecifier_def Let_def relativeSpecifier_baseUrl_Bar
        getFilePathWithoutExt_examples)

lemma example_project_fields:
  "getCompilerOptions example_project = \<lparr>baseUrl = None, importModuleSpecifierEnding = None\<rparr>"
  "getLanguageService_getProgram example_project = Some example_program"
  "projectService_host example_project
   = Some (\<lambda>compilerOptions sourceFile selfPath modulePath. Inl ResolverError)"
  "getCurrentDirectory example_project = ''/proj''"
  by (simp_all add: example_project_def)

lemma example_info_fields:
  "info_config_options example_info = example_options"
  "info_project example_info = example_project"
  by (simp_all add: example_info_def)

lemma example_program_Foo: "example_program ''/proj/src/a/Foo.ts'' = Some ''Bar.run()''"
  by (simp add: example_program_def)

lemma example_module_paths:
  "getModulePathsToImport (posix ''/'') example_options example_project
   = [''/proj/src/a/Foo.ts'', ''/proj/src/b/Bar.ts'']"
  by code_simp

lemma example_scanned:
  "scanned_module_paths (posix ''/'') example_options example_project
   = [''/proj/src/a/Foo.ts'', ''/proj/src/a/Foo.test.ts'',
      ''/proj/src/a/stateMachine.ts'', ''/proj/src/b/Bar.ts'', ''/proj/src/b/Bar.ts'']"
  by code_simp

lemma example_basenames:
  "getFileNameWithoutExt (posix ''/'') ''/proj/src/a/Foo.ts'' = ''Foo''"
  "getFileNameWithoutExt (posix ''/'') ''/proj/src/b/Bar.ts'' = ''Bar''"
  "getFileNameWithoutExt (posix ''/'') ''/proj/src/a/Foo.test.ts'' = ''Foo.test''"
  "getFileNameWithoutExt (posix ''/'') ''/proj/src/a/stateMachine.ts'' = ''stateMachine''"
  by code_simp+

lemma example_selected:
  "selected_name ''/proj/src/a/Foo.ts'' 0 3 example_info = Some ''Bar''"
  "selected_name ''/proj/src/a/Foo.ts'' 4 7 example_info = Some ''run''"
  "selected_name ''/proj/src/a/Foo.ts'' 3 3 example_info = Some []"
  "selected_name ''/proj/src/a/Other.ts'' 0 3 example_info = None"
  by (simp_all add: selected_name_def example_info_def example_program_def slice_def
        slice_bound_def)

lemma example_specifier:
  "getModuleSpceifier (posix ''/'') ''/proj/src/a/Foo.ts'' ''/proj/src/b/Bar.ts'' example_project
   = ''../b/Bar.ts''"
  by (simp add: getModuleSpceifier_def example_project_fields example_program_Foo
        fallbackSpecifier_Foo_Bar_eval)

lemma example_fix:
  "getCodeFixActionByName (posix ''/'') ''/proj/src/a/Foo.ts'' 0 3 example_info
   = Some (getCodeFixActionFromPath (posix ''/'') ''Bar'' ''/proj/src/a/Foo.ts''
             ''/proj/src/b/Bar.ts'' example_project)"
  by (simp add: getCodeFixActionByName_def example_selected Let_def
        example_info_fields example_module_paths example_basenames)

lemma example_no_fix:
  "getCodeFixActionByName (posix ''/'') ''/proj/src/a/Foo.ts'' 4 7 example_info = None"
  by (simp add: getCodeFixActionByName_def example_selected Let_def
        example_info_fields example_module_paths example_basenames)

lemma example_filter:
  "filterNamedImportEntries (posix ''/'')
     [entry_without_exportName, entry_with_exportName] example_info
   = Inr [entry_without_exportName]"
  by code_simp

section \<open>General lemmas\<close>

lemma set_slice_subset: "set (slice s a b) \<subseteq> set s"
proof -
  have "set (slice s a b) \<subseteq> set (drop (slice_bound (length s) a) s)"
    by (simp add: slice_def Let_def set_take_subset)
  also have "\<dots> \<subseteq> set s" by (rule set_drop_subset)
  finally show ?thesis .
qed

lemma replace_backslashes_free: "backslash \<notin> set (replace_backslashes s)"
  by (auto simp: replace_backslashes_def backslash_def)

lemma no_backslash_stem:
  assumes "\<not> truthy_string (baseUrl co)"
  shows "backslash \<notin> set (getFilePathWithoutExt P (relativeSpecifier P selfPath modulePath co))"
proof -
  have "backslash \<notin> set (relativeSpecifier P selfPath modulePath co)"
    using assms by (simp add: relativeSpecifier_def Let_def replace_backslashes_free)
  moreover have "set (getFilePathWithoutExt P (relativeSpecifier P selfPath modulePath co))
        \<subseteq> set (relativeSpecifier P selfPath modulePath co)"
    by (simp add: getFilePathWithoutExt_def Let_def set_slice_subset)
  ultimately show ?thesis by blast
qed

lemma fold_Set_add_set: "set (fold Set_add xs acc) = set acc \<union> set xs"
  by (induction xs arbitrary: acc) (auto simp: Set_add_def)

lemma fold_Set_add_distinct: "distinct acc \<Longrightarrow> distinct (fold Set_add xs acc)"
  by (induction xs arbitrary: acc) (auto simp: Set_add_def)

lemma spread_new_Set_set: "set (spread_new_Set xs) = set xs"
  by (simp add: spread_new_Set_def fold_Set_add_set)

lemma spread_new_Set_distinct: "distinct (spread_new_Set xs)"
  by (simp add: spread_new_Set_def fold_Set_add_distinct)

lemma count_list_distinct: "distinct xs \<Longrightarrow> count_list xs x = (if x \<in> set xs then 1 else 0)"
  by (induction xs) auto

lemma getModulePathsToImport_set:
  "set (getModulePathsToImport P options project)
   = {p \<in> set (scanned_module_paths P options project). keep_module_path P options p}"
  by (auto simp: getModulePathsToImport_def spread_new_Set_set)

lemma getModulePathsToImport_distinct: "distinct (getModulePathsToImport P options project)"
  by (simp add: getModulePathsToImport_def spread_new_Set_distinct)

lemma keep_module_path_iff:
  "keep_module_path P options p \<longleftrightarrow>
     \<not> str_includes (getFileNameWithoutExt P p) CHR ''.''
     \<and> (truthy_bool (capitalizedFilesOnly options) \<longrightarrow> test_A_Z (getFileNameWithoutExt P p))"
  by (simp add: keep_module_path_def Let_def)

lemma test_A_Z_iff: "test_A_Z b \<longleftrightarrow> b \<noteq> [] \<and> is_upper (hd b)"
  by (cases b) (simp_all add: is_upper_def)

lemma stringCase_state_machine_pascal: "stringCase ''state_machine'' True = ''StateMachine''"
  by code_simp

lemma stringCase_state_machine_camel: "stringCase ''state_machine'' False = ''stateMachine''"
  by code_simp

lemma getCodeFixActionFromPath_changes:
  "changes (getCodeFixActionFromPath P name selfPath modulePath project)
   = [\<lparr>changes_fileName = selfPath,
       textChanges =
         [\<lparr>span = \<lparr>span_start = 0, span_length = 0\<rparr>,
           newText = ''import * as '' @ name @ '' from '' @ [CHR 0x22]
                      @ getModuleSpceifier P selfPath modulePath project
                      @ [CHR 0x22] @ '';'' @ [CHR 0x0A]\<rparr>]\<rparr>]"
  by (simp add: getCodeFixActionFromPath_def import_text_def Let_def)

lemma getCodeFixActionByName_Some:
  assumes "getCodeFixActionByName P selfPath start end info = Some action"
  shows "\<exists>name modulePath.
           selected_name selfPath start end info = Some name \<and> name \<noteq> []
           \<and> find (\<lambda>filePath. getFileNameWithoutExt P filePath = name)
                (getModulePathsToImport P (info_config_options info) (info_project info))
               = Some modulePath
           \<and> action = getCodeFixActionFromPath P name selfPath modulePath (info_project info)"
proof -
  from assms obtain name where n: "selected_name selfPath start end info = Some name" "name \<noteq> []"
    by (cases "selected_name selfPath start end info")
       (auto simp: getCodeFixActionByName_def Let_def split: if_splits)
  let ?f = "find (\<lambda>filePath. getFileNameWithoutExt P filePath = name)
                (getModulePathsToImport P (info_config_options info) (info_project info))"
  from assms n obtain modulePath where m: "?f = Some modulePath"
    by (cases ?f) (auto simp: getCodeFixActionByName_def Let_def split: if_splits)
  from assms n m
  have "action = getCodeFixActionFromPath P name selfPath modulePath (info_project info)"
    by (auto simp: getCodeFixActionByName_def Let_def split: if_splits)
  with n m show ?thesis by blast
qed

lemma getCodeFixActionByName_no_name:
  "\<not> truthy_string (selected_name selfPath start end info) \<Longrightarrow>
   getCodeFixActionByName P selfPath start end info = None"
  by (simp add: getCodeFixActionByName_def)

lemma getCodeFixActionByName_no_match:
  assumes "selected_name selfPath start end info = Some name"
    and "\<forall>modulePath \<in> set (getModulePathsToImport P (info_config_options info) (info_project info)).
           getFileNameWithoutExt P modulePath \<noteq> name"
  shows "getCodeFixActionByName P selfPath start end info = None"
proof -
  have "find (\<lambda>filePath. getFileNameWithoutExt P filePath = name)
          (getModulePathsToImport P (info_config_options info) (info_project info)) = None"
    using assms(2) by (simp add: find_None_iff)
  then show ?thesis using assms(1) by (simp add: getCodeFixActionByName_def Let_def)
qed

lemma named_export_under_no_exportName:
  "entry_data entry = None \<or> (\<exists>d. entry_data entry = Some d \<and> data_exportName d = None) \<Longrightarrow>
   \<not> named_export_under entry dirPath"
  by (auto simp: named_export_under_def)

subsection \<open>The extension of a path that starts with a dot\<close>

text \<open>
  \<open>posix.extname\<close> never reaches back to the first character of a path that starts
  with a dot, nor to the slash of a path that starts with \<open>./\<close>: the scan only takes a
  dot as the start of the extension, and a dot at index 0 with nothing but the
  extension after it gives the empty extension.
\<close>

lemma extname_loop_startDot:
  assumes "path \<noteq> []" and "path ! 0 = CHR ''.''"
    and "(ext_startDot s = -1 \<and> ext_preDotState s = 0)
         \<or> (1 \<le> ext_startDot s \<and> path ! nat (ext_startDot s) = CHR ''.'')"
  shows "ext_startDot (extname_loop path n s) = -1
         \<or> ext_preDotState (extname_loop path n s) = 0
         \<or> (1 \<le> ext_startDot (extname_loop path n s)
             \<and> path ! nat (ext_startDot (extname_loop path n s)) = CHR ''.'')"
  using assms(3)
proof (induction n arbitrary: s)
  case 0
  then show ?case by auto
next
  case (Suc i)
  show ?case
  proof (cases "i = 0")
    case True
    with Suc.prems assms(2) show ?thesis
      by (auto simp: Let_def)
  next
    case False
    show ?thesis
    proof (cases "path ! i = CHR ''/''")
      case True
      show ?thesis
      proof (cases "ext_matchedSlash s")
        case True
        with \<open>path ! i = CHR ''/''\<close> Suc.IH [OF Suc.prems] show ?thesis by simp
      next
        case False
        with \<open>path ! i = CHR ''/''\<close> Suc.prems show ?thesis by auto
      qed
    next
      case notslash: False
      let ?s1 = "if ext_end s = -1
                   then s\<lparr>ext_matchedSlash := False, ext_end := int i + 1\<rparr> else s"
      let ?s2 = "if path ! i = CHR ''.'' then
                     (if ext_startDot ?s1 = -1 then ?s1\<lparr>ext_startDot := int i\<rparr>
                      else if ext_preDotState ?s1 \<noteq> 1 then ?s1\<lparr>ext_preDotState := 1\<rparr>
                      else ?s1)
                   else if ext_startDot ?s1 \<noteq> -1 then ?s1\<lparr>ext_preDotState := -1\<rparr>
                   else ?s1"
      have inv: "(ext_startDot ?s2 = -1 \<and> ext_preDotState ?s2 = 0)
         \<or> (1 \<le> ext_startDot ?s2 \<and> path ! nat (ext_startDot ?s2) = CHR ''.'')"
        using Suc.prems \<open>i \<noteq> 0\<close> by auto
      have "extname_loop path (Suc i) s = extname_loop path i ?s2"
        using notslash by (simp add: Let_def)
      with Suc.IH [OF inv] show ?thesis by simp
    qed
  qed
qed

lemma length_slice_le: "0 \<le> a \<Longrightarrow> length (slice s a b) \<le> length s - nat a"
  by (auto simp: slice_def slice_bound_def Let_def)

lemma posix_extname_after_dot:
  assumes "path \<noteq> []" and "path ! 0 = CHR ''.''"
  shows "length (posix_extname path) < length path"
    and "2 \<le> length path \<Longrightarrow> path ! 1 = CHR ''/'' \<Longrightarrow>
         length (posix_extname path) + 2 \<le> length path"
proof -
  let ?s = "extname_loop path (length path)
                \<lparr>ext_startDot = -1, ext_startPart = 0, ext_end = -1,
                 ext_matchedSlash = True, ext_preDotState = 0\<rparr>"
  have inv: "ext_startDot ?s = -1 \<or> ext_preDotState ?s = 0
         \<or> (1 \<le> ext_startDot ?s \<and> path ! nat (ext_startDot ?s) = CHR ''.'')"
    by (rule extname_loop_startDot [OF assms]) simp
  show "length (posix_extname path) < length path"
  proof (cases "posix_extname path = []")
    case True
    with assms(1) show ?thesis by simp
  next
    case False
    then have e: "posix_extname path = slice path (ext_startDot ?s) (ext_end ?s)"
      and ne: "ext_startDot ?s \<noteq> -1" "ext_preDotState ?s \<noteq> 0"
      by (auto simp: posix_extname_def Let_def split: if_splits)
    with inv have k: "1 \<le> ext_startDot ?s" by auto
    then have "length (slice path (ext_startDot ?s) (ext_end ?s)) \<le> length path - nat (ext_startDot ?s)"
      by (intro length_slice_le) simp
    with k e assms(1) show ?thesis by (cases path) auto
  qed
  show "length (posix_extname path) + 2 \<le> length path"
    if len: "2 \<le> length path" and sl: "path ! 1 = CHR ''/''"
  proof (cases "posix_extname path = []")
    case True
    with len show ?thesis by simp
  next
    case False
    then have e: "posix_extname path = slice path (ext_startDot ?s) (ext_end ?s)"
      and ne: "ext_startDot ?s \<noteq> -1" "ext_preDotState ?s \<noteq> 0"
      by (auto simp: posix_extname_def Let_def split: if_splits)
    with inv have k: "1 \<le> ext_startDot ?s" "path ! nat (ext_startDot ?s) = CHR ''.''" by auto
    with sl have "ext_startDot ?s \<noteq> 1" by auto
    with k have k2: "2 \<le> ext_startDot ?s" by simp
    then have l: "length (slice path (ext_startDot ?s) (ext_end ?s)) \<le> length path - nat (ext_startDot ?s)"
      by (intro length_slice_le) simp
    have "slice path (ext_startDot ?s) (ext_end ?s) \<noteq> []" using False e by simp
    with l have "nat (ext_startDot ?s) < length path" by (cases "nat (ext_startDot ?s) < length path") auto
    with k2 l e show ?thesis by simp
  qed
qed


lemma slice_to_take:
  assumes "n \<le> length s"
  shows "slice s 0 (int (length s) - int n) = take (length s - n) s"
proof -
  have "int (length s) - int n = int (length s - n)"
    using assms by (simp add: of_nat_diff)
  then have "slice s 0 (int (length s) - int n) = slice s 0 (int (length s - n))"
    by (simp only:)
  also have "\<dots> = take (length s - n) s"
    by (simp add: slice_def slice_bound_def Let_def)
  finally show ?thesis .
qed

lemma getFilePathWithoutExt_posix:
  "length (posix_extname p) \<le> length p \<Longrightarrow>
   getFilePathWithoutExt (posix cwd) p = take (length p - length (posix_extname p)) p"
  by (simp add: getFilePathWithoutExt_def posix_def Let_def slice_to_take)

lemma getFilePathWithoutExt_dot_slash:
  "\<exists>rest. getFilePathWithoutExt (posix cwd) (''./'' @ y) = ''./'' @ rest"
proof -
  let ?p = "''./'' @ y"
  have l: "length (posix_extname ?p) + 2 \<le> length ?p"
    by (rule posix_extname_after_dot(2)) simp_all
  then have "length (posix_extname ?p) \<le> length ?p" by simp
  then have "getFilePathWithoutExt (posix cwd) ?p
             = take (length ?p - length (posix_extname ?p)) ?p"
    by (rule getFilePathWithoutExt_posix)
  also have "\<dots> = ''./'' @ take (length y - length (posix_extname ?p)) y"
    using l by (simp add: Suc_diff_le)
  finally show ?thesis by blast
qed

lemma fallbackSpecifier_posix_dot_slash:
  assumes "\<not> truthy_string (baseUrl co)"
    and "\<not> startsWith (posix_relative cwd (posix_dirname selfPath) modulePath) ''.''"
  shows "startsWith (fallbackSpecifier (posix cwd) selfPath modulePath co) ''./''"
proof -
  define rel where
    "rel = replace_backslashes (posix_relative cwd (posix_dirname selfPath) modulePath)"
  have "relativeSpecifier (posix cwd) selfPath modulePath co = ''./'' @ rel"
    using assms
    by (simp add: relativeSpecifier_def posix_def Let_def replace_backslashes_def
          backslash_def rel_def)
  moreover obtain rest where "getFilePathWithoutExt (posix cwd) (''./'' @ rel) = ''./'' @ rest"
    using getFilePathWithoutExt_dot_slash by blast
  ultimately show ?thesis
    by (simp add: fallbackSpecifier_def Let_def startsWith_def)
qed

lemma posix_fields:
  "path_relative (posix cwd) = posix_relative cwd"
  "path_dirname (posix cwd) = posix_dirname"
  by (simp_all add: posix_def)

subsection \<open>A module path with a backslash in its file name\<close>

lemma relative_a_b_backslash_Bar:
  "posix_relative [] ''/proj/src/a'' (''/proj/src/b'' @ [CHR 0x5C] @ ''Bar.ts'')
   = ''../b'' @ [CHR 0x5C] @ ''Bar.ts''"
  by code_simp

lemma path_relative_backslash_module:
  "path_relative (posix cwd) (path_dirname (posix cwd) ''/proj/src/a/Foo.ts'')
     (''/proj/src/b'' @ [backslash] @ ''Bar.ts'')
   = ''../b'' @ [backslash] @ ''Bar.ts''"
  by (simp add: posix_fields dirname_Foo posix_relative_absolute
        relative_a_b_backslash_Bar [simplified] backslash_def)

lemma path_extname_backslash_module:
  "path_extname (posix cwd) (''/proj/src/b'' @ [backslash] @ ''Bar.ts'') = ''.ts''"
  by (simp add: posix_def extname_examples [simplified] backslash_def)

lemma fallbackSpecifier_backslash_module_eval:
  "fallbackSpecifier (posix cwd) ''/proj/src/a/Foo.ts''
     (''/proj/src/b'' @ [backslash] @ ''Bar.ts'')
     \<lparr>baseUrl = None, importModuleSpecifierEnding = None\<rparr> = ''../b/Bar.ts''"
proof -
  have rel: "relativeSpecifier (posix cwd) ''/proj/src/a/Foo.ts''
               (''/proj/src/b'' @ [backslash] @ ''Bar.ts'')
               \<lparr>baseUrl = None, importModuleSpecifierEnding = None\<rparr> = ''../b/Bar.ts''"
    by (simp only: relativeSpecifier_def Let_def path_relative_backslash_module)
       (simp add: startsWith_def replace_backslashes_def backslash_def)
  show ?thesis
    by (simp only: fallbackSpecifier_def Let_def rel path_extname_backslash_module)
       (simp add: getFilePathWithoutExt_examples)
qed

section \<open>The claims\<close>

text \<open>
  C1. Fallback algorithm, no \<open>baseUrl\<close>, POSIX paths: importing file
  \<open>/proj/src/a/Foo.ts\<close> and module \<open>/proj/src/b/Bar.ts\<close> give \<open>../b/Bar\<close> when
  \<open>importModuleSpecifierEnding\<close> is \<open>"minimal"\<close>, and \<open>../b/Bar.ts\<close> when it is
  \<open>"js"\<close>, unset or any other value, whatever the working directory.
\<close>

theorem fallbackSpecifier_Foo_Bar:
  "fallbackSpecifier (posix cwd) ''/proj/src/a/Foo.ts'' ''/proj/src/b/Bar.ts''
     \<lparr>baseUrl = None, importModuleSpecifierEnding = ending\<rparr>
   = (if ending = Some ''minimal'' then ''../b/Bar'' else ''../b/Bar.ts'')"
  by (rule fallbackSpecifier_Foo_Bar_eval)

theorem fallbackSpecifier_Foo_Bar_witness:
  "fallbackSpecifier (posix ''/proj'') ''/proj/src/a/Foo.ts'' ''/proj/src/b/Bar.ts''
     \<lparr>baseUrl = None, importModuleSpecifierEnding = Some ''js''\<rparr> = ''../b/Bar.ts''
   \<and> fallbackSpecifier (posix ''/proj'') ''/proj/src/a/Foo.ts'' ''/proj/src/b/Bar.ts''
     \<lparr>baseUrl = None, importModuleSpecifierEnding = None\<rparr> = ''../b/Bar.ts''
   \<and> fallbackSpecifier (posix ''/proj'') ''/proj/src/a/Foo.ts'' ''/proj/src/b/Bar.ts''
     \<lparr>baseUrl = None, importModuleSpecifierEnding = Some ''node16''\<rparr> = ''../b/Bar.ts''
   \<and> fallbackSpecifier (posix ''/proj'') ''/proj/src/a/Foo.ts'' ''/proj/src/b/Bar.ts''
     \<lparr>baseUrl = None, importModuleSpecifierEnding = Some ''minimal''\<rparr> = ''../b/Bar''"
  using fallbackSpecifier_Foo_Bar [of "''/proj''" "Some ''js''"]
    fallbackSpecifier_Foo_Bar [of "''/proj''" None]
    fallbackSpecifier_Foo_Bar [of "''/proj''" "Some ''node16''"]
    fallbackSpecifier_Foo_Bar [of "''/proj''" "Some ''minimal''"]
  by simp

text \<open>
  C2. When the importing source file and the host are there and the native resolver
  throws, \<open>getModuleSpceifier\<close> returns a specifier all the same: exactly the one the
  fallback algorithm gives for the same paths and compiler options.
\<close>

theorem getModuleSpceifier_native_throws:
  assumes "getLanguageService_getProgram project = Some program"
    and "program selfPath = Some sourceFile"
    and "projectService_host project = Some host"
    and "host (getCompilerOptions project) sourceFile selfPath modulePath = Inl e"
  shows "getModuleSpceifier P selfPath modulePath project
         = fallbackSpecifier P selfPath modulePath (getCompilerOptions project)"
  using assms by (simp add: getModuleSpceifier_def)

theorem getModuleSpceifier_native_throws_witness:
  "getLanguageService_getProgram example_project = Some example_program
   \<and> example_program ''/proj/src/a/Foo.ts'' = Some ''Bar.run()''
   \<and> projectService_host example_project
       = Some (\<lambda>compilerOptions sourceFile selfPath modulePath. Inl ResolverError)
   \<and> getModuleSpceifier (posix ''/'') ''/proj/src/a/Foo.ts'' ''/proj/src/b/Bar.ts'' example_project
       = fallbackSpecifier (posix ''/'') ''/proj/src/a/Foo.ts'' ''/proj/src/b/Bar.ts''
           (getCompilerOptions example_project)
   \<and> getModuleSpceifier (posix ''/'') ''/proj/src/a/Foo.ts'' ''/proj/src/b/Bar.ts'' example_project
       = ''../b/Bar.ts''"
proof -
  have "getModuleSpceifier (posix ''/'') ''/proj/src/a/Foo.ts'' ''/proj/src/b/Bar.ts'' example_project
       = fallbackSpecifier (posix ''/'') ''/proj/src/a/Foo.ts'' ''/proj/src/b/Bar.ts''
           (getCompilerOptions example_project)"
    by (rule getModuleSpceifier_native_throws
          [OF example_project_fields(2) example_program_Foo example_project_fields(3)]) simp
  then show ?thesis
    by (simp add: example_project_fields example_program_Foo fallbackSpecifier_Foo_Bar_eval)
qed

text \<open>
  C3. The fallback algorithm strips the extension from \<open>relativeSpecifier\<close> and
  appends the ending. With \<open>baseUrl\<close> that specifier is the POSIX relative path
  itself, with no \<open>./\<close> put in front; without \<open>baseUrl\<close> it is the relative path
  itself (backslashes replaced) when that starts with a dot, and \<open>./\<close> followed by it
  when it does not. On POSIX the \<open>./\<close> survives the extension handling: the returned
  specifier starts with \<open>./\<close> whenever the relative path does not start with a dot.
\<close>

theorem fallbackSpecifier_dot_slash_prefix:
  "fallbackSpecifier P selfPath modulePath co
     = getFilePathWithoutExt P (relativeSpecifier P selfPath modulePath co)
       @ (if importModuleSpecifierEnding co = Some ''minimal'' then []
          else path_extname P modulePath)
   \<and> (truthy_string (baseUrl co) \<longrightarrow>
        relativeSpecifier P selfPath modulePath co
        = path_posix_relative P (the (baseUrl co)) modulePath)
   \<and> (\<not> truthy_string (baseUrl co)
       \<and> startsWith (path_relative P (path_dirname P selfPath) modulePath) ''.'' \<longrightarrow>
        relativeSpecifier P selfPath modulePath co
        = replace_backslashes (path_relative P (path_dirname P selfPath) modulePath))
   \<and> (\<not> truthy_string (baseUrl co)
       \<and> \<not> startsWith (path_relative P (path_dirname P selfPath) modulePath) ''.'' \<longrightarrow>
        relativeSpecifier P selfPath modulePath co
        = ''./'' @ replace_backslashes (path_relative P (path_dirname P selfPath) modulePath))
   \<and> (\<not> truthy_string (baseUrl co)
       \<and> \<not> startsWith (posix_relative cwd (posix_dirname selfPath) modulePath) ''.'' \<longrightarrow>
        startsWith (fallbackSpecifier (posix cwd) selfPath modulePath co) ''./'')"
proof (intro conjI impI)
  show "fallbackSpecifier P selfPath modulePath co
     = getFilePathWithoutExt P (relativeSpecifier P selfPath modulePath co)
       @ (if importModuleSpecifierEnding co = Some ''minimal'' then []
          else path_extname P modulePath)"
    by (simp add: fallbackSpecifier_def Let_def)
next
  assume "truthy_string (baseUrl co)"
  then show "relativeSpecifier P selfPath modulePath co
        = path_posix_relative P (the (baseUrl co)) modulePath"
    by (simp add: relativeSpecifier_def)
next
  assume "\<not> truthy_string (baseUrl co)
       \<and> startsWith (path_relative P (path_dirname P selfPath) modulePath) ''.''"
  then show "relativeSpecifier P selfPath modulePath co
        = replace_backslashes (path_relative P (path_dirname P selfPath) modulePath)"
    by (simp add: relativeSpecifier_def Let_def)
next
  assume "\<not> truthy_string (baseUrl co)
       \<and> \<not> startsWith (path_relative P (path_dirname P selfPath) modulePath) ''.''"
  then show "relativeSpecifier P selfPath modulePath co
        = ''./'' @ replace_backslashes (path_relative P (path_dirname P selfPath) modulePath)"
    by (simp add: relativeSpecifier_def Let_def replace_backslashes_def backslash_def)
next
  assume "\<not> truthy_string (baseUrl co)
       \<and> \<not> startsWith (posix_relative cwd (posix_dirname selfPath) modulePath) ''.''"
  then show "startsWith (fallbackSpecifier (posix cwd) selfPath modulePath co) ''./''"
    by (simp add: fallbackSpecifier_posix_dot_slash)
qed

theorem fallbackSpecifier_dot_slash_prefix_witness:
  "\<not> truthy_string (baseUrl \<lparr>baseUrl = None, importModuleSpecifierEnding = Some ''minimal''\<rparr>)
   \<and> path_relative (posix ''/'') (path_dirname (posix ''/'') ''/proj/src/a/Foo.ts'')
        ''/proj/src/a/foo.ts'' = ''foo.ts''
   \<and> relativeSpecifier (posix ''/'') ''/proj/src/a/Foo.ts'' ''/proj/src/a/foo.ts''
       \<lparr>baseUrl = None, importModuleSpecifierEnding = Some ''minimal''\<rparr>
      = ''./'' @ replace_backslashes ''foo.ts''
   \<and> startsWith (fallbackSpecifier (posix ''/'') ''/proj/src/a/Foo.ts'' ''/proj/src/a/foo.ts''
       \<lparr>baseUrl = None, importModuleSpecifierEnding = Some ''minimal''\<rparr>) ''./''
   \<and> fallbackSpecifier (posix ''/'') ''/proj/src/a/Foo.ts'' ''/proj/src/a/foo.ts''
       \<lparr>baseUrl = None, importModuleSpecifierEnding = Some ''minimal''\<rparr> = ''./foo''
   \<and> path_relative (posix ''/'') (path_dirname (posix ''/'') ''/proj/src/a/Foo.ts'')
        ''/proj/src/b/Bar.ts'' = ''../b/Bar.ts''
   \<and> relativeSpecifier (posix ''/'') ''/proj/src/a/Foo.ts'' ''/proj/src/b/Bar.ts''
       \<lparr>baseUrl = None, importModuleSpecifierEnding = Some ''minimal''\<rparr>
      = replace_backslashes ''../b/Bar.ts''
   \<and> truthy_string (baseUrl \<lparr>baseUrl = Some ''/proj/src'',
                              importModuleSpecifierEnding = Some ''minimal''\<rparr>)
   \<and> relativeSpecifier (posix ''/'') ''/proj/src/a/Foo.ts'' ''/proj/src/b/Bar.ts''
       \<lparr>baseUrl = Some ''/proj/src'', importModuleSpecifierEnding = Some ''minimal''\<rparr>
      = path_posix_relative (posix ''/'') ''/proj/src'' ''/proj/src/b/Bar.ts''
   \<and> fallbackSpecifier (posix ''/'') ''/proj/src/a/Foo.ts'' ''/proj/src/b/Bar.ts''
       \<lparr>baseUrl = Some ''/proj/src'', importModuleSpecifierEnding = Some ''minimal''\<rparr> = ''b/Bar''"
proof -
  let ?none = "\<lparr>baseUrl = None, importModuleSpecifierEnding = Some ''minimal''\<rparr>"
  let ?base = "\<lparr>baseUrl = Some ''/proj/src'', importModuleSpecifierEnding = Some ''minimal''\<rparr>"
  have t: "\<not> truthy_string (baseUrl ?none)" "truthy_string (baseUrl ?base)"
    "the (baseUrl ?base) = ''/proj/src''"
    by simp_all
  have foo: "path_relative (posix ''/'') (path_dirname (posix ''/'') ''/proj/src/a/Foo.ts'')
        ''/proj/src/a/foo.ts'' = ''foo.ts''"
    by (simp add: posix_fields dirname_Foo posix_relative_absolute relative_a_foo)
  have bar: "path_relative (posix ''/'') (path_dirname (posix ''/'') ''/proj/src/a/Foo.ts'')
        ''/proj/src/b/Bar.ts'' = ''../b/Bar.ts''"
    by (simp add: posix_fields dirname_Foo posix_relative_absolute relative_a_Bar)
  have foo': "posix_relative ''/'' (posix_dirname ''/proj/src/a/Foo.ts'')
        ''/proj/src/a/foo.ts'' = ''foo.ts''"
    using foo by (simp only: posix_fields)
  have nd: "\<not> startsWith ''foo.ts'' ''.''" and d: "startsWith ''../b/Bar.ts'' ''.''"
    by (simp_all add: startsWith_def)
  note sibling = fallbackSpecifier_dot_slash_prefix [of "posix ''/''" "''/proj/src/a/Foo.ts''"
      "''/proj/src/a/foo.ts''" ?none "''/''", unfolded foo foo']
  note dotted = fallbackSpecifier_dot_slash_prefix [of "posix ''/''" "''/proj/src/a/Foo.ts''"
      "''/proj/src/b/Bar.ts''" ?none "''/''", unfolded bar]
  note based = fallbackSpecifier_dot_slash_prefix [of "posix ''/''" "''/proj/src/a/Foo.ts''"
      "''/proj/src/b/Bar.ts''" ?base "''/''"]
  have 1: "relativeSpecifier (posix ''/'') ''/proj/src/a/Foo.ts'' ''/proj/src/a/foo.ts'' ?none
           = ''./'' @ replace_backslashes ''foo.ts''"
    by (rule mp [OF sibling [THEN conjunct2, THEN conjunct2, THEN conjunct2, THEN conjunct1]
          conjI [OF t(1) nd]])
  have 2: "startsWith (fallbackSpecifier (posix ''/'') ''/proj/src/a/Foo.ts''
             ''/proj/src/a/foo.ts'' ?none) ''./''"
    by (rule mp [OF sibling [THEN conjunct2, THEN conjunct2, THEN conjunct2, THEN conjunct2]
          conjI [OF t(1) nd]])
  have 3: "relativeSpecifier (posix ''/'') ''/proj/src/a/Foo.ts'' ''/proj/src/b/Bar.ts'' ?none
           = replace_backslashes ''../b/Bar.ts''"
    by (rule mp [OF dotted [THEN conjunct2, THEN conjunct2, THEN conjunct1]
          conjI [OF t(1) d]])
  have 4: "relativeSpecifier (posix ''/'') ''/proj/src/a/Foo.ts'' ''/proj/src/b/Bar.ts'' ?base
           = path_posix_relative (posix ''/'') ''/proj/src'' ''/proj/src/b/Bar.ts''"
    using mp [OF based [THEN conjunct2, THEN conjunct1] t(2)] by (simp only: t(3))
  show ?thesis
    by (intro conjI t(1) t(2) foo 1 2 bar 3 4 fallbackSpecifier_Foo_foo_eval
          fallbackSpecifier_baseUrl_Bar_eval)
qed

text \<open>
  C4. In the branch without \<open>baseUrl\<close> every backslash of the directory-relative path is
  replaced by a forward slash before the extension is stripped, so the returned specifier
  has no backslash when the ending is \<open>"minimal"\<close> or the extension appended afterwards
  has none. In the \<open>baseUrl\<close> branch nothing is replaced: the specifier is the result of
  \<open>path.posix.relative\<close> with the extension stripped and re-applied.
\<close>

theorem fallbackSpecifier_backslashes:
  "(\<not> truthy_string (baseUrl co)
      \<and> (importModuleSpecifierEnding co = Some ''minimal''
          \<or> backslash \<notin> set (path_extname P modulePath))
      \<longrightarrow> backslash \<notin> set (fallbackSpecifier P selfPath modulePath co))
   \<and> (truthy_string (baseUrl co) \<longrightarrow>
        fallbackSpecifier P selfPath modulePath co
        = getFilePathWithoutExt P (path_posix_relative P (the (baseUrl co)) modulePath)
          @ (if importModuleSpecifierEnding co = Some ''minimal'' then []
             else path_extname P modulePath))"
proof (intro conjI impI)
  assume h: "\<not> truthy_string (baseUrl co)
      \<and> (importModuleSpecifierEnding co = Some ''minimal''
          \<or> backslash \<notin> set (path_extname P modulePath))"
  then have "backslash \<notin> set (getFilePathWithoutExt P (relativeSpecifier P selfPath modulePath co))"
    by (simp add: no_backslash_stem)
  with h show "backslash \<notin> set (fallbackSpecifier P selfPath modulePath co)"
    by (auto simp: fallbackSpecifier_def Let_def)
next
  assume "truthy_string (baseUrl co)"
  then show "fallbackSpecifier P selfPath modulePath co
        = getFilePathWithoutExt P (path_posix_relative P (the (baseUrl co)) modulePath)
          @ (if importModuleSpecifierEnding co = Some ''minimal'' then []
             else path_extname P modulePath)"
    by (simp add: fallbackSpecifier_def relativeSpecifier_def Let_def)
qed

theorem fallbackSpecifier_backslashes_witness:
  "\<not> truthy_string (baseUrl \<lparr>baseUrl = None, importModuleSpecifierEnding = None\<rparr>)
   \<and> backslash \<in> set (path_relative (posix ''/'')
         (path_dirname (posix ''/'') ''/proj/src/a/Foo.ts'')
         (''/proj/src/b'' @ [backslash] @ ''Bar.ts''))
   \<and> backslash \<notin> set (path_extname (posix ''/'') (''/proj/src/b'' @ [backslash] @ ''Bar.ts''))
   \<and> backslash \<notin> set (fallbackSpecifier (posix ''/'') ''/proj/src/a/Foo.ts''
         (''/proj/src/b'' @ [backslash] @ ''Bar.ts'')
         \<lparr>baseUrl = None, importModuleSpecifierEnding = None\<rparr>)
   \<and> fallbackSpecifier (posix ''/'') ''/proj/src/a/Foo.ts''
         (''/proj/src/b'' @ [backslash] @ ''Bar.ts'')
         \<lparr>baseUrl = None, importModuleSpecifierEnding = None\<rparr> = ''../b/Bar.ts''
   \<and> truthy_string (baseUrl \<lparr>baseUrl = Some ''/proj/src'',
                              importModuleSpecifierEnding = Some ''minimal''\<rparr>)
   \<and> fallbackSpecifier (posix ''/'') ''/proj/src/a/Foo.ts''
         (''/proj/src/b'' @ [backslash] @ ''Bar.ts'')
         \<lparr>baseUrl = Some ''/proj/src'', importModuleSpecifierEnding = Some ''minimal''\<rparr>
       = getFilePathWithoutExt (posix ''/'')
           (path_posix_relative (posix ''/'') ''/proj/src''
              (''/proj/src/b'' @ [backslash] @ ''Bar.ts''))"
proof -
  let ?m = "''/proj/src/b'' @ [backslash] @ ''Bar.ts''"
  let ?none = "\<lparr>baseUrl = None, importModuleSpecifierEnding = None\<rparr>"
  let ?base = "\<lparr>baseUrl = Some ''/proj/src'', importModuleSpecifierEnding = Some ''minimal''\<rparr>"
  have t: "\<not> truthy_string (baseUrl ?none)" "truthy_string (baseUrl ?base)"
    by simp_all
  have inrel: "backslash \<in> set (path_relative (posix ''/'')
         (path_dirname (posix ''/'') ''/proj/src/a/Foo.ts'') ?m)"
    by (simp only: path_relative_backslash_module) simp
  have ext: "backslash \<notin> set (path_extname (posix ''/'') ?m)"
    by (simp only: path_extname_backslash_module) (simp add: backslash_def)
  have free: "backslash \<notin> set (fallbackSpecifier (posix ''/'') ''/proj/src/a/Foo.ts'' ?m ?none)"
    by (rule mp [OF fallbackSpecifier_backslashes
            [of ?none "posix ''/''" ?m "''/proj/src/a/Foo.ts''", THEN conjunct1]
          conjI [OF t(1) disjI2 [OF ext]]])
  have based: "fallbackSpecifier (posix ''/'') ''/proj/src/a/Foo.ts'' ?m ?base
       = getFilePathWithoutExt (posix ''/'')
           (path_posix_relative (posix ''/'') ''/proj/src'' ?m)"
    using mp [OF fallbackSpecifier_backslashes
            [of ?base "posix ''/''" ?m "''/proj/src/a/Foo.ts''", THEN conjunct2] t(2)]
    by simp
  show ?thesis
    by (intro conjI t(1) inrel ext free fallbackSpecifier_backslash_module_eval t(2) based)
qed

text \<open>
  C4, as stated, fails in the \<open>baseUrl\<close> branch: with \<open>baseUrl = /proj/src\<close> and a
  module path whose file name holds a backslash, the specifier keeps the backslash.
\<close>

theorem fallbackSpecifier_baseUrl_keeps_backslash:
  "backslash \<in> set (fallbackSpecifier (posix ''/'') ''/proj/src/a/Foo.ts''
      (''/proj/src/b'' @ [backslash] @ ''Bar.ts'')
      \<lparr>baseUrl = Some ''/proj/src'', importModuleSpecifierEnding = None\<rparr>)"
  by (simp add: fallbackSpecifier_def relativeSpecifier_def path_posix_relative_def posix_def
      posix_relative_absolute relative_src_b_backslash_Bar [simplified]
      getFilePathWithoutExt_def Let_def extname_examples [simplified] slice_def
      slice_bound_def backslash_def)

text \<open>
  C5. Every path occurs in the list \<open>getModulePathsToImport\<close> returns exactly once when
  some search root reports it and it passes the filter, and not at all otherwise; a
  path of the list has no dot in its basename without extension, and when
  \<open>capitalizedFilesOnly\<close> is set that basename starts with an ASCII capital letter.
\<close>

theorem getModulePathsToImport_once_and_filtered:
  "count_list (getModulePathsToImport P options project) p
     = (if p \<in> set (scanned_module_paths P options project) \<and> keep_module_path P options p
        then 1 else 0)
   \<and> (p \<in> set (getModulePathsToImport P options project) \<longrightarrow>
        CHR ''.'' \<notin> set (getFileNameWithoutExt P p)
        \<and> (capitalizedFilesOnly options = Some True \<longrightarrow>
             getFileNameWithoutExt P p \<noteq> [] \<and> is_upper (hd (getFileNameWithoutExt P p))))"
proof -
  have "count_list (getModulePathsToImport P options project) p
        = (if p \<in> set (getModulePathsToImport P options project) then 1 else 0)"
    by (rule count_list_distinct) (rule getModulePathsToImport_distinct)
  then show ?thesis
    by (auto simp: getModulePathsToImport_set keep_module_path_iff test_A_Z_iff
          str_includes_def)
qed

theorem getModulePathsToImport_once_and_filtered_witness:
  "count_list (scanned_module_paths (posix ''/'') example_options example_project)
      ''/proj/src/b/Bar.ts'' = 2
   \<and> getModulePathsToImport (posix ''/'') example_options example_project
       = [''/proj/src/a/Foo.ts'', ''/proj/src/b/Bar.ts'']
   \<and> count_list (getModulePathsToImport (posix ''/'') example_options example_project)
       ''/proj/src/b/Bar.ts'' = 1
   \<and> capitalizedFilesOnly example_options = Some True
   \<and> getFileNameWithoutExt (posix ''/'') ''/proj/src/b/Bar.ts'' = ''Bar''
   \<and> is_upper (hd (getFileNameWithoutExt (posix ''/'') ''/proj/src/b/Bar.ts''))
   \<and> count_list (getModulePathsToImport (posix ''/'') example_options example_project)
       ''/proj/src/a/Foo.test.ts'' = 0
   \<and> count_list (getModulePathsToImport (posix ''/'') example_options example_project)
       ''/proj/src/a/stateMachine.ts'' = 0"
proof -
  have cap: "capitalizedFilesOnly example_options = Some True"
    by (simp add: example_options_def)
  show ?thesis
    using getModulePathsToImport_once_and_filtered
        [of "posix ''/''" example_options example_project "''/proj/src/b/Bar.ts''"]
    by (simp add: example_module_paths example_scanned example_basenames cap is_upper_def)
qed

text \<open>
  C6. \<open>transformImportName("state_machine", cfg)\<close> is \<open>StateMachine\<close> when
  \<open>cfg.nameTransform\<close> is \<open>"PascalCase"\<close> and \<open>stateMachine\<close> when it is
  \<open>"camelCase"\<close>; without \<open>nameTransform\<close> every basename comes back unchanged.
\<close>

theorem transformImportName_state_machine:
  "transformImportName ''state_machine'' (options\<lparr>nameTransform := Some ''PascalCase''\<rparr>)
     = ''StateMachine''
   \<and> transformImportName ''state_machine'' (options\<lparr>nameTransform := Some ''camelCase''\<rparr>)
     = ''stateMachine''
   \<and> transformImportName name (options\<lparr>nameTransform := None\<rparr>) = name"
  by (simp add: transformImportName_def stringCase_state_machine_pascal
        stringCase_state_machine_camel)

theorem transformImportName_state_machine_witness:
  "transformImportName ''state_machine'' (example_options\<lparr>nameTransform := Some ''PascalCase''\<rparr>)
     = ''StateMachine''
   \<and> transformImportName ''state_machine'' (example_options\<lparr>nameTransform := Some ''camelCase''\<rparr>)
     = ''stateMachine''
   \<and> transformImportName ''state_machine'' (example_options\<lparr>nameTransform := None\<rparr>)
     = ''state_machine''"
  using transformImportName_state_machine [of example_options "''state_machine''"]
  by simp

text \<open>
  C7. The action \<open>getCodeFixActionFromPath\<close> builds has one file change, on the
  importing file, with one text change: span start 0, length 0, and the text
  \<open>import * as <name> from "<specifier>";\<close> followed by a newline, the specifier being
  the one \<open>getModuleSpceifier\<close> returns. The completion detail carries exactly this
  action, and a code fix that is returned is this action for the selected text.
\<close>

theorem import_edit_format:
  "changes (getCodeFixActionFromPath P name selfPath modulePath project)
     = [\<lparr>changes_fileName = selfPath,
         textChanges =
           [\<lparr>span = \<lparr>span_start = 0, span_length = 0\<rparr>,
             newText = ''import * as '' @ name @ '' from '' @ [CHR 0x22]
                        @ getModuleSpceifier P selfPath modulePath project
                        @ [CHR 0x22] @ '';'' @ [CHR 0x0A]\<rparr>]\<rparr>]
   \<and> map changes (codeActions (getCompletionEntryDetails P name selfPath modulePath info))
     = [[\<lparr>changes_fileName = selfPath,
          textChanges =
            [\<lparr>span = \<lparr>span_start = 0, span_length = 0\<rparr>,
              newText = ''import * as '' @ name @ '' from '' @ [CHR 0x22]
                         @ getModuleSpceifier P selfPath modulePath (info_project info)
                         @ [CHR 0x22] @ '';'' @ [CHR 0x0A]\<rparr>]\<rparr>]]
   \<and> (getCodeFixActionByName P selfPath start end info = Some action \<longrightarrow>
        (\<exists>selected found.
            selected_name selfPath start end info = Some selected
            \<and> changes action
              = [\<lparr>changes_fileName = selfPath,
                  textChanges =
                    [\<lparr>span = \<lparr>span_start = 0, span_length = 0\<rparr>,
                      newText = ''import * as '' @ selected @ '' from '' @ [CHR 0x22]
                                 @ getModuleSpceifier P selfPath found (info_project info)
                                 @ [CHR 0x22] @ '';'' @ [CHR 0x0A]\<rparr>]\<rparr>]))"
proof (intro conjI impI)
  show "changes (getCodeFixActionFromPath P name selfPath modulePath project)
     = [\<lparr>changes_fileName = selfPath,
         textChanges =
           [\<lparr>span = \<lparr>span_start = 0, span_length = 0\<rparr>,
             newText = ''import * as '' @ name @ '' from '' @ [CHR 0x22]
                        @ getModuleSpceifier P selfPath modulePath project
                        @ [CHR 0x22] @ '';'' @ [CHR 0x0A]\<rparr>]\<rparr>]"
    by (rule getCodeFixActionFromPath_changes)
next
  show "map changes (codeActions (getCompletionEntryDetails P name selfPath modulePath info))
     = [[\<lparr>changes_fileName = selfPath,
          textChanges =
            [\<lparr>span = \<lparr>span_start = 0, span_length = 0\<rparr>,
              newText = ''import * as '' @ name @ '' from '' @ [CHR 0x22]
                         @ getModuleSpceifier P selfPath modulePath (info_project info)
                         @ [CHR 0x22] @ '';'' @ [CHR 0x0A]\<rparr>]\<rparr>]]"
    by (simp add: getCompletionEntryDetails_def Let_def getCodeFixActionFromPath_changes)
next
  assume "getCodeFixActionByName P selfPath start end info = Some action"
  from getCodeFixActionByName_Some [OF this] obtain selected found where
    "selected_name selfPath start end info = Some selected"
    "action = getCodeFixActionFromPath P selected selfPath found (info_project info)"
    by blast
  then show "\<exists>selected found.
            selected_name selfPath start end info = Some selected
            \<and> changes action
              = [\<lparr>changes_fileName = selfPath,
                  textChanges =
                    [\<lparr>span = \<lparr>span_start = 0, span_length = 0\<rparr>,
                      newText = ''import * as '' @ selected @ '' from '' @ [CHR 0x22]
                                 @ getModuleSpceifier P selfPath found (info_project info)
                                 @ [CHR 0x22] @ '';'' @ [CHR 0x0A]\<rparr>]\<rparr>]"
    using getCodeFixActionFromPath_changes by blast
qed

theorem import_edit_format_witness:
  "getCodeFixActionByName (posix ''/'') ''/proj/src/a/Foo.ts'' 0 3 example_info
     = Some (getCodeFixActionFromPath (posix ''/'') ''Bar'' ''/proj/src/a/Foo.ts''
               ''/proj/src/b/Bar.ts'' example_project)
   \<and> changes (getCodeFixActionFromPath (posix ''/'') ''Bar'' ''/proj/src/a/Foo.ts''
               ''/proj/src/b/Bar.ts'' example_project)
     = [\<lparr>changes_fileName = ''/proj/src/a/Foo.ts'',
         textChanges =
           [\<lparr>span = \<lparr>span_start = 0, span_length = 0\<rparr>,
             newText = ''import * as Bar from '' @ [CHR 0x22] @ ''../b/Bar.ts''
                        @ [CHR 0x22] @ '';'' @ [CHR 0x0A]\<rparr>]\<rparr>]"
  using import_edit_format [of "posix ''/''" "''Bar''" "''/proj/src/a/Foo.ts''"
      "''/proj/src/b/Bar.ts''" example_project example_info 0 3]
  by (simp add: example_fix example_specifier)

text \<open>
  C8. A code fix that \<open>getCodeFixActionByName\<close> returns is the action for a discovered
  module whose basename without extension equals the selected text; when no discovered
  module has that basename, or the selected text is missing or empty, the result is
  \<open>null\<close>.
\<close>

theorem getCodeFixActionByName_exact_basename:
  "(getCodeFixActionByName P selfPath start end info = Some action \<longrightarrow>
      (\<exists>name modulePath.
          selected_name selfPath start end info = Some name \<and> name \<noteq> []
          \<and> modulePath \<in> set (getModulePathsToImport P (info_config_options info) (info_project info))
          \<and> getFileNameWithoutExt P modulePath = name
          \<and> action = getCodeFixActionFromPath P name selfPath modulePath (info_project info)))
   \<and> (selected_name selfPath start end info = Some name
       \<and> (\<forall>modulePath \<in> set (getModulePathsToImport P (info_config_options info) (info_project info)).
             getFileNameWithoutExt P modulePath \<noteq> name)
       \<longrightarrow> getCodeFixActionByName P selfPath start end info = None)
   \<and> (selected_name selfPath start end info = None
       \<or> selected_name selfPath start end info = Some []
       \<longrightarrow> getCodeFixActionByName P selfPath start end info = None)"
proof (intro conjI impI)
  assume "getCodeFixActionByName P selfPath start end info = Some action"
  from getCodeFixActionByName_Some [OF this] obtain name modulePath where
    h: "selected_name selfPath start end info = Some name" "name \<noteq> []"
       "find (\<lambda>filePath. getFileNameWithoutExt P filePath = name)
          (getModulePathsToImport P (info_config_options info) (info_project info))
        = Some modulePath"
       "action = getCodeFixActionFromPath P name selfPath modulePath (info_project info)"
    by blast
  from h(3)
  have "modulePath \<in> set (getModulePathsToImport P (info_config_options info) (info_project info))"
    "getFileNameWithoutExt P modulePath = name"
    by (auto simp: find_Some_iff)
  with h show "\<exists>name modulePath.
          selected_name selfPath start end info = Some name \<and> name \<noteq> []
          \<and> modulePath \<in> set (getModulePathsToImport P (info_config_options info) (info_project info))
          \<and> getFileNameWithoutExt P modulePath = name
          \<and> action = getCodeFixActionFromPath P name selfPath modulePath (info_project info)"
    by blast
next
  assume "selected_name selfPath start end info = Some name
       \<and> (\<forall>modulePath \<in> set (getModulePathsToImport P (info_config_options info) (info_project info)).
             getFileNameWithoutExt P modulePath \<noteq> name)"
  then show "getCodeFixActionByName P selfPath start end info = None"
    using getCodeFixActionByName_no_match by blast
next
  assume "selected_name selfPath start end info = None
       \<or> selected_name selfPath start end info = Some []"
  then show "getCodeFixActionByName P selfPath start end info = None"
    by (auto intro: getCodeFixActionByName_no_name)
qed

theorem getCodeFixActionByName_exact_basename_witness:
  "selected_name ''/proj/src/a/Foo.ts'' 0 3 example_info = Some ''Bar''
   \<and> getFileNameWithoutExt (posix ''/'') ''/proj/src/b/Bar.ts'' = ''Bar''
   \<and> getCodeFixActionByName (posix ''/'') ''/proj/src/a/Foo.ts'' 0 3 example_info
     = Some (getCodeFixActionFromPath (posix ''/'') ''Bar'' ''/proj/src/a/Foo.ts''
               ''/proj/src/b/Bar.ts'' example_project)
   \<and> selected_name ''/proj/src/a/Foo.ts'' 4 7 example_info = Some ''run''
   \<and> getModulePathsToImport (posix ''/'') (info_config_options example_info)
        (info_project example_info) = [''/proj/src/a/Foo.ts'', ''/proj/src/b/Bar.ts'']
   \<and> getCodeFixActionByName (posix ''/'') ''/proj/src/a/Foo.ts'' 4 7 example_info = None
   \<and> selected_name ''/proj/src/a/Foo.ts'' 3 3 example_info = Some []
   \<and> getCodeFixActionByName (posix ''/'') ''/proj/src/a/Foo.ts'' 3 3 example_info = None
   \<and> selected_name ''/proj/src/a/Other.ts'' 0 3 example_info = None
   \<and> getCodeFixActionByName (posix ''/'') ''/proj/src/a/Other.ts'' 0 3 example_info = None"
  using getCodeFixActionByName_exact_basename [of "posix ''/''" "''/proj/src/a/Foo.ts''" 0 3
      example_info "getCodeFixActionFromPath (posix ''/'') ''Bar'' ''/proj/src/a/Foo.ts''
               ''/proj/src/b/Bar.ts'' example_project" "''run''"]
    getCodeFixActionByName_exact_basename [of "posix ''/''" "''/proj/src/a/Foo.ts''" 4 7
      example_info _ "''run''"]
    getCodeFixActionByName_exact_basename [of "posix ''/''" "''/proj/src/a/Foo.ts''" 3 3
      example_info]
    getCodeFixActionByName_exact_basename [of "posix ''/''" "''/proj/src/a/Other.ts''" 0 3
      example_info]
  by (simp add: example_selected example_fix example_info_fields example_module_paths
        example_basenames)

text \<open>
  C9. With \<open>ignoreNamedExport\<close> true and \<open>paths\<close> absent \<open>filterNamedImportEntries\<close>
  raises a TypeError; with \<open>ignoreNamedExport\<close> true and \<open>paths\<close> present it returns a
  list; with \<open>ignoreNamedExport\<close> false or unset it returns the entries unchanged,
  whether \<open>paths\<close> is there or not.
\<close>

theorem filterNamedImportEntries_total_iff_paths:
  "(ignoreNamedExport (info_config_options info) = Some True
      \<and> paths (info_config_options info) = None
      \<longrightarrow> filterNamedImportEntries P entries info = Inl TypeError)
   \<and> (ignoreNamedExport (info_config_options info) = Some True
      \<and> paths (info_config_options info) \<noteq> None
      \<longrightarrow> (\<exists>kept. filterNamedImportEntries P entries info = Inr kept))
   \<and> (ignoreNamedExport (info_config_options info) = Some False
      \<or> ignoreNamedExport (info_config_options info) = None
      \<longrightarrow> filterNamedImportEntries P entries info = Inr entries)"
  by (auto simp: filterNamedImportEntries_def Let_def)

theorem filterNamedImportEntries_total_iff_paths_witness:
  "ignoreNamedExport (info_config_options
       (example_info\<lparr>info_config_options := example_options\<lparr>paths := None\<rparr>\<rparr>)) = Some True
   \<and> paths (info_config_options
       (example_info\<lparr>info_config_options := example_options\<lparr>paths := None\<rparr>\<rparr>)) = None
   \<and> filterNamedImportEntries (posix ''/'') [entry_with_exportName]
       (example_info\<lparr>info_config_options := example_options\<lparr>paths := None\<rparr>\<rparr>)
     = Inl TypeError
   \<and> ignoreNamedExport (info_config_options
       (example_info\<lparr>info_config_options :=
          example_options\<lparr>paths := None, ignoreNamedExport := Some False\<rparr>\<rparr>)) = Some False
   \<and> filterNamedImportEntries (posix ''/'') [entry_with_exportName]
       (example_info\<lparr>info_config_options :=
          example_options\<lparr>paths := None, ignoreNamedExport := Some False\<rparr>\<rparr>)
     = Inr [entry_with_exportName]
   \<and> ignoreNamedExport (info_config_options
       (example_info\<lparr>info_config_options :=
          example_options\<lparr>paths := None, ignoreNamedExport := None\<rparr>\<rparr>)) = None
   \<and> filterNamedImportEntries (posix ''/'') [entry_with_exportName]
       (example_info\<lparr>info_config_options :=
          example_options\<lparr>paths := None, ignoreNamedExport := None\<rparr>\<rparr>)
     = Inr [entry_with_exportName]"
  using filterNamedImportEntries_total_iff_paths
      [of "example_info\<lparr>info_config_options := example_options\<lparr>paths := None\<rparr>\<rparr>"
          "posix ''/''" "[entry_with_exportName]"]
    filterNamedImportEntries_total_iff_paths
      [of "example_info\<lparr>info_config_options :=
             example_options\<lparr>paths := None, ignoreNamedExport := Some False\<rparr>\<rparr>"
          "posix ''/''" "[entry_with_exportName]"]
    filterNamedImportEntries_total_iff_paths
      [of "example_info\<lparr>info_config_options :=
             example_options\<lparr>paths := None, ignoreNamedExport := None\<rparr>\<rparr>"
          "posix ''/''" "[entry_with_exportName]"]
  by (simp add: example_options_def)

text \<open>
  C10. An entry without data, or whose data has no \<open>exportName\<close>, is never removed:
  whenever \<open>filterNamedImportEntries\<close> returns a list, the entry occurs in it as often
  as in the input, also when its file lies under a search root; and the function does
  return a list whenever \<open>paths\<close> is present.
\<close>

theorem filterNamedImportEntries_keeps_without_exportName:
  assumes "entry_data entry = None
           \<or> (\<exists>d. entry_data entry = Some d \<and> data_exportName d = None)"
  shows "(\<forall>kept. filterNamedImportEntries P entries info = Inr kept \<longrightarrow>
            count_list kept entry = count_list entries entry)
         \<and> (paths (info_config_options info) \<noteq> None \<longrightarrow>
             (\<exists>kept. filterNamedImportEntries P entries info = Inr kept))"
proof -
  have keep: "\<not> list_ex (\<lambda>dirPath. named_export_under entry dirPath) dirs" for dirs
    using named_export_under_no_exportName [OF assms] by (simp add: list_ex_iff)
  have count: "count_list (filter (\<lambda>entry. \<not> list_ex (\<lambda>dirPath. named_export_under entry dirPath)
                                          dirs) entries) entry
               = count_list entries entry" for dirs
    using keep [of dirs] by (induction entries) auto
  show ?thesis
  proof (cases "truthy_bool (ignoreNamedExport (info_config_options info))")
    case False
    then show ?thesis by (simp add: filterNamedImportEntries_def)
  next
    case True
    then show ?thesis
      by (cases "paths (info_config_options info)")
         (simp_all add: filterNamedImportEntries_def Let_def count)
  qed
qed

theorem filterNamedImportEntries_keeps_without_exportName_witness:
  "(\<exists>d. entry_data entry_without_exportName = Some d \<and> data_exportName d = None)
   \<and> startsWith (the (data_fileName (the (entry_data entry_without_exportName))))
        (path_resolve (posix ''/'') ''/proj'' ''src/b'')
   \<and> filterNamedImportEntries (posix ''/'')
        [entry_without_exportName, entry_with_exportName] example_info
      = Inr [entry_without_exportName]
   \<and> count_list [entry_without_exportName] entry_without_exportName
      = count_list [entry_without_exportName, entry_with_exportName] entry_without_exportName"
proof -
  have e: "\<exists>d. entry_data entry_without_exportName = Some d \<and> data_exportName d = None"
    by (simp add: entry_without_exportName_def)
  then have d: "entry_data entry_without_exportName = None
           \<or> (\<exists>d. entry_data entry_without_exportName = Some d \<and> data_exportName d = None)"
    by blast
  have ne: "entry_with_exportName \<noteq> entry_without_exportName"
    by (simp add: entry_with_exportName_def entry_without_exportName_def)
  have r: "startsWith (the (data_fileName (the (entry_data entry_without_exportName))))
        (path_resolve (posix ''/'') ''/proj'' ''src/b'')"
    by code_simp
  show ?thesis
    using filterNamedImportEntries_keeps_without_exportName [OF d, of "posix ''/''"
        "[entry_without_exportName, entry_with_exportName]" example_info] e r ne
    by (simp add: example_filter)
qed

end
